theory Spec2Isabelle
  imports Main "HOL-Library.Word"
begin

unbundle bit_operations_syntax

section \<open>JavaScript strings\<close>

text \<open>
  A JavaScript string is modelled as a \<open>string\<close>. The functions below are the string
  methods that \<open>Client.js\<close> calls, at the argument shapes it calls them with.
\<close>

text \<open>\<open>s.indexOf(c)\<close> for a one-character \<open>c\<close>: the index of the first occurrence, or -1.\<close>

fun indexOf :: "string \<Rightarrow> char \<Rightarrow> int" where
  "indexOf [] c = -1"
| "indexOf (x # xs) c =
     (if x = c then 0 else (let i = indexOf xs c in if i < 0 then -1 else i + 1))"

text \<open>\<open>s.substr(start)\<close>: from \<open>start\<close> to the end; a negative \<open>start\<close> counts from the end.\<close>

definition substr :: "string \<Rightarrow> int \<Rightarrow> string" where
  "substr s start =
     (if 0 \<le> start then drop (nat start) s else drop (nat (int (length s) + start)) s)"

text \<open>
  \<open>s.replace(c, '')\<close> for a one-character string pattern \<open>c\<close>: a string pattern is
  matched once, so only the first occurrence is replaced.
\<close>

fun replace :: "string \<Rightarrow> char \<Rightarrow> string" where
  "replace [] c = []"
| "replace (x # xs) c = (if x = c then xs else x # replace xs c)"

definition backslash :: char where
  "backslash = CHR 0x5C"

section \<open>The digest of \<open>crypto.createHash('md5').update(msg).digest('hex')\<close>\<close>

text \<open>
  \<open>crypto\<close> is Node's own module. The digest is MD5 as RFC 1321 defines it, over the
  UTF-8 encoding of the string, printed as 32 lower-case hexadecimal digits. A \<open>char\<close> is
  read as the code point of the same number, so a character from 128 on is two bytes.
\<close>

type_synonym u8 = "8 word"
type_synonym u32 = "32 word"

definition utf8 :: "string \<Rightarrow> u8 list" where
  "utf8 s = concat (map (\<lambda>c. let n = (of_char c :: u8) in
      if n < 128 then [n] else [192 OR drop_bit 6 n, 128 OR (n AND 63)]) s)"

definition md5_K :: "u32 list" where
  "md5_K =
    [0xd76aa478, 0xe8c7b756, 0x242070db, 0xc1bdceee,
     0xf57c0faf, 0x4787c62a, 0xa8304613, 0xfd469501,
     0x698098d8, 0x8b44f7af, 0xffff5bb1, 0x895cd7be,
     0x6b901122, 0xfd987193, 0xa679438e, 0x49b40821,
     0xf61e2562, 0xc040b340, 0x265e5a51, 0xe9b6c7aa,
     0xd62f105d, 0x02441453, 0xd8a1e681, 0xe7d3fbc8,
     0x21e1cde6, 0xc33707d6, 0xf4d50d87, 0x455a14ed,
     0xa9e3e905, 0xfcefa3f8, 0x676f02d9, 0x8d2a4c8a,
     0xfffa3942, 0x8771f681, 0x6d9d6122, 0xfde5380c,
     0xa4beea44, 0x4bdecfa9, 0xf6bb4b60, 0xbebfbc70,
     0x289b7ec6, 0xeaa127fa, 0xd4ef3085, 0x04881d05,
     0xd9d4d039, 0xe6db99e5, 0x1fa27cf8, 0xc4ac5665,
     0xf4292244, 0x432aff97, 0xab9423a7, 0xfc93a039,
     0x655b59c3, 0x8f0ccc92, 0xffeff47d, 0x85845dd1,
     0x6fa87e4f, 0xfe2ce6e0, 0xa3014314, 0x4e0811a1,
     0xf7537e82, 0xbd3af235, 0x2ad7d2bb, 0xeb86d391]"

definition md5_S :: "nat list" where
  "md5_S =
    [7, 12, 17, 22, 7, 12, 17, 22, 7, 12, 17, 22, 7, 12, 17, 22,
     5, 9, 14, 20, 5, 9, 14, 20, 5, 9, 14, 20, 5, 9, 14, 20,
     4, 11, 16, 23, 4, 11, 16, 23, 4, 11, 16, 23, 4, 11, 16, 23,
     6, 10, 15, 21, 6, 10, 15, 21, 6, 10, 15, 21, 6, 10, 15, 21]"

definition rotl :: "u32 \<Rightarrow> nat \<Rightarrow> u32" where
  "rotl x n = push_bit n x OR drop_bit (32 - n) x"

text \<open>Padding: a 1 bit, zeros up to 56 modulo 64 bytes, the bit length in 8 bytes.\<close>

definition md5_pad :: "u8 list \<Rightarrow> u8 list" where
  "md5_pad bs =
     (let n = length bs;
          z = (119 - n mod 64) mod 64;
          bits = (push_bit 3 (word_of_nat n) :: 64 word)
      in bs @ [128] @ replicate z 0 @ map (\<lambda>i. ucast (drop_bit (8 * i) bits)) [0..<8])"

fun le_words :: "u8 list \<Rightarrow> u32 list" where
  "le_words (a # b # c # d # rest) =
     (ucast a OR push_bit 8 (ucast b) OR push_bit 16 (ucast c) OR push_bit 24 (ucast d))
       # le_words rest"
| "le_words _ = []"

fun chunks :: "nat \<Rightarrow> 'a list \<Rightarrow> 'a list list" where
  "chunks n [] = []"
| "chunks n (x # xs) =
     (if n = 0 then [x # xs] else take n (x # xs) # chunks n (drop n (x # xs)))"

type_synonym md5_state = "u32 \<times> u32 \<times> u32 \<times> u32"

definition md5_round :: "u32 list \<Rightarrow> md5_state \<Rightarrow> nat \<Rightarrow> md5_state" where
  "md5_round m st i =
     (case st of (a, b, c, d) \<Rightarrow>
        let (f, g) =
              (if i < 16 then ((b AND c) OR (NOT b AND d), i)
               else if i < 32 then ((d AND b) OR (NOT d AND c), (5 * i + 1) mod 16)
               else if i < 48 then (b XOR c XOR d, (3 * i + 5) mod 16)
               else (c XOR (b OR NOT d), (7 * i) mod 16))
        in (d, b + rotl (a + f + md5_K ! i + m ! g) (md5_S ! i), b, c))"

definition md5_block :: "md5_state \<Rightarrow> u32 list \<Rightarrow> md5_state" where
  "md5_block st m =
     (case st of (a0, b0, c0, d0) \<Rightarrow>
        case foldl (md5_round m) st [0..<64] of (a, b, c, d) \<Rightarrow>
          (a0 + a, b0 + b, c0 + c, d0 + d))"

definition md5_init :: md5_state where
  "md5_init = (0x67452301, 0xefcdab89, 0x98badcfe, 0x10325476)"

definition hex_digit :: "u8 \<Rightarrow> char" where
  "hex_digit n = ''0123456789abcdef'' ! unat n"

definition hex_byte :: "u8 \<Rightarrow> string" where
  "hex_byte b = [hex_digit (drop_bit 4 b), hex_digit (b AND 15)]"

definition hex_le :: "u32 \<Rightarrow> string" where
  "hex_le w = concat (map (\<lambda>i. hex_byte (ucast (drop_bit (8 * i) w))) [0..<4])"

definition md5 :: "string \<Rightarrow> string" where
  "md5 s =
     (case foldl md5_block md5_init (chunks 16 (le_words (md5_pad (utf8 s)))) of
        (a, b, c, d) \<Rightarrow> hex_le a @ hex_le b @ hex_le c @ hex_le d)"

section \<open>Stanzas\<close>

text \<open>
  A stanza is an element of the XMPP library: a name, attributes, and children that are
  text fragments (JavaScript strings) or elements. An absent attribute is \<open>undefined\<close>.
\<close>

datatype element = Element (name: string) (attrs: "string \<rightharpoonup> string") (children: "node list")
  and node = Text string | Child element

datatype error = TypeError

text \<open>
  \<open>findChild\<close>: the first child whose \<open>name\<close> property is the given name, \<open>null\<close>
  when there is none. A text fragment has no \<open>name\<close> property.
\<close>

fun findChild :: "string \<Rightarrow> node list \<Rightarrow> element option" where
  "findChild n [] = None"
| "findChild n (Text s # cs) = findChild n cs"
| "findChild n (Child e # cs) = (if name e = n then Some e else findChild n cs)"

text \<open>
  \<open>children.join('')\<close>: a text fragment is itself; an element child is turned into a
  string by the XMPP library's serialiser, which is a parameter here.
\<close>

fun toString :: "(element \<Rightarrow> string) \<Rightarrow> node \<Rightarrow> string" where
  "toString serialize (Text s) = s"
| "toString serialize (Child e) = serialize e"

definition join :: "(element \<Rightarrow> string) \<Rightarrow> node list \<Rightarrow> string" where
  "join serialize cs = concat (map (toString serialize) cs)"

section \<open>The brain\<close>

text \<open>
  Modelled from the spec: the persistence library (\<open>node-persist\<close>, required as
  \<open>brain\<close>) is not among the sources. It is a key-value store with a synchronous
  \<open>get(key) -> value|null\<close> and \<open>set(key, value)\<close>. Each key holds what \<open>Client.js\<close>
  writes under it: \<open>messages\<close> maps a digest to the \<open>messageObj\<close> of \<open>sendMessage\<close>,
  \<open>userMessages\<close> maps a username to that user's message log, and every other key is a
  setting.

  A stored object is the finite map of its own properties. A JavaScript object also
  inherits the members of \<open>Object.prototype\<close> (\<open>__proto__\<close>, \<open>constructor\<close>,
  \<open>toString\<close> and the others listed as \<open>inheritedNames\<close> below), which the map does
  not have. So the model stands for the code on names that are not inherited; where a
  statement depends on the difference it says which names it is about.
\<close>

record user_message_log =
  time :: int
  lastCommandTime :: "int option"

record message_obj =
  message :: string
  time :: int

type_synonym 'v user = "string \<rightharpoonup> 'v"

datatype 'v setting = Null | Object "string \<rightharpoonup> 'v user"

record 'v brain =
  messages :: "(string \<rightharpoonup> message_obj) option"
  userMessages :: "(string \<rightharpoonup> user_message_log) option"
  settings :: "string \<rightharpoonup> 'v setting"

section \<open>The client\<close>

record credentials =
  jid :: string
  password :: string
  roomJid :: string
  username :: string

text \<open>
  Modelled from the spec: \<open>Log.log\<close> (module \<open>./Log\<close> is not among the sources) only
  logs; here it appends the line to \<open>logged\<close>, and touches neither the brain nor the
  transport.

  The state a \<open>Client\<close> works on: its own fields, the brain, the stanzas handed to
  \<open>this.client.send\<close> (oldest first), and the lines given to \<open>Log.log\<close>.
\<close>

record 'v client =
  credentials :: credentials
  debug :: bool
  brain :: "'v brain"
  sent :: "element list"
  logged :: "string list"

text \<open>
  \<open>sendMessage(msg)\<close>, with the value of \<open>new Date().getTime()\<close> as \<open>now\<close>. The result is
  \<open>Some False\<close> for \<open>return false\<close> and \<open>None\<close> where the function returns nothing.
\<close>

definition sendMessage :: "int \<Rightarrow> string \<Rightarrow> 'v client \<Rightarrow> bool option \<times> 'v client" where
  "sendMessage now msg c =
     (if debug c then (Some False, c\<lparr>logged := logged c @ [''DEBUGGING: '' @ msg]\<rparr>)
      else
        let msgs = (case messages (brain c) of None \<Rightarrow> Map.empty | Some m \<Rightarrow> m);
            hash = md5 msg;
            previousMessage = msgs hash;
            messageObj = \<lparr>message = msg, time = now\<rparr>;
            c' = (if (case previousMessage of
                        None \<Rightarrow> True
                      | Some p \<Rightarrow> time messageObj - time p > 5000)
                  then
                    c\<lparr>sent := sent c @
                      [Element ''message''
                         [''to'' \<mapsto> roomJid (credentials c), ''type'' \<mapsto> ''groupchat'']
                         [Child (Element ''body'' Map.empty [Text msg])]]\<rparr>
                  else
                    c\<lparr>logged := logged c @
                      [''Skipping sendMessage - previous message sent within 5 seconds'']\<rparr>)
        in (None, c'\<lparr>brain := (brain c')\<lparr>messages := Some (msgs(hash \<mapsto> messageObj))\<rparr>\<rparr>))"

definition replyTo :: "int \<Rightarrow> string \<Rightarrow> string \<Rightarrow> 'v client \<Rightarrow> 'v client" where
  "replyTo now user msg c = snd (sendMessage now (''@'' @ user @ '': '' @ msg) c)"

text \<open>\<open>getSetting(key)\<close> is \<open>brain.getItemSync(key) || null\<close>.\<close>

definition getSetting :: "'v brain \<Rightarrow> string \<Rightarrow> 'v setting" where
  "getSetting b key = (case settings b key of None \<Rightarrow> Null | Some v \<Rightarrow> v)"

definition saveSetting :: "string \<Rightarrow> 'v setting \<Rightarrow> 'v brain \<Rightarrow> 'v brain" where
  "saveSetting key v b = b\<lparr>settings := (settings b)(key \<mapsto> v)\<rparr>"

text \<open>
  \<open>getUser(username)\<close> is \<open>leaderboard[username] || {}\<close>; reading a property of
  \<open>null\<close> throws a \<open>TypeError\<close>.
\<close>

definition getUser :: "'v brain \<Rightarrow> string \<Rightarrow> error + 'v user" where
  "getUser b user =
     (case getSetting b ''leaderboard'' of
        Null \<Rightarrow> Inl TypeError
      | Object leaderboard \<Rightarrow>
          Inr (case leaderboard user of None \<Rightarrow> Map.empty | Some u \<Rightarrow> u))"

section \<open>Parsing stanzas\<close>

text \<open>
  \<open>parseFromUsername\<close>: \<open>fromJid.substr(fromJid.indexOf('/') + 1)\<close>; with no \<open>from\<close>
  attribute, \<open>fromJid\<close> is \<open>undefined\<close> and the call throws.
\<close>

definition parseFromUsername :: "element \<Rightarrow> error + string" where
  "parseFromUsername stanza =
     (case attrs stanza ''from'' of
        None \<Rightarrow> Inl TypeError
      | Some fromJid \<Rightarrow> Inr (substr fromJid (indexOf fromJid (CHR ''/'') + 1)))"

datatype parsed =
    Message (type: string) (fromUsername: string) (message: string) (rateLimited: bool)
  | Presence (type: string) (fromUsername: string) (message: string) (role: "string option")

text \<open>
  \<open>parseMessage(stanza)\<close>, with the value of \<open>new Date().getTime()\<close> as \<open>now\<close>. A stanza
  with no \<open>from\<close> or no \<open>body\<close> child throws before the brain is read.

  For a sender named \<open>__proto__\<close> the assignment \<open>messages[fromUsername] = messageObj\<close>
  of the code sets the prototype of the map object: the record is read back under that
  name, but it is no entry of the map and is not stored with it. The model keeps it as an
  entry, so a statement about the stored entries leaves this name out.
\<close>

definition parseMessage ::
  "(element \<Rightarrow> string) \<Rightarrow> int \<Rightarrow> element \<Rightarrow> 'v brain \<Rightarrow> error + parsed \<times> 'v brain"
where
  "parseMessage serialize now stanza b =
     (case parseFromUsername stanza of
        Inl e \<Rightarrow> Inl e
      | Inr fromUser \<Rightarrow>
         (case findChild ''body'' (children stanza) of
            None \<Rightarrow> Inl TypeError
          | Some body \<Rightarrow>
              let msg = replace (join serialize (children body)) backslash;
                  msgs = (case userMessages b of None \<Rightarrow> Map.empty | Some m \<Rightarrow> m);
                  userMessageLog = msgs fromUser;
                  lastCommand =
                    (case userMessageLog of
                       None \<Rightarrow> 0
                     | Some l \<Rightarrow> (case lastCommandTime l of None \<Rightarrow> 0 | Some t \<Rightarrow> t));
                  messageObj = \<lparr>user_message_log.time = now, lastCommandTime = None\<rparr>;
                  limited =
                    (lastCommand > 0 \<and> user_message_log.time messageObj - lastCommand < 5000)
              in Inr (Message ''message'' fromUser msg limited,
                      b\<lparr>userMessages := Some (msgs(fromUser \<mapsto> messageObj))\<rparr>)))"

definition parsePresence :: "element \<Rightarrow> error + parsed" where
  "parsePresence stanza =
     (case parseFromUsername stanza of
        Inl e \<Rightarrow> Inl e
      | Inr fromUser \<Rightarrow>
          let msg = (case attrs stanza ''type'' of
                       None \<Rightarrow> ''available''
                     | Some t \<Rightarrow> if t = [] then ''available'' else t)
          in (case findChild ''x'' (children stanza) of
                None \<Rightarrow> Inl TypeError
              | Some xObj \<Rightarrow>
                 (case findChild ''item'' (children xObj) of
                    None \<Rightarrow> Inl TypeError
                  | Some itemObj \<Rightarrow>
                      Inr (Presence ''presence'' fromUser msg (attrs itemObj ''role'')))))"

text \<open>\<open>parseStanza\<close>: a stanza of any other name gives \<open>undefined\<close>, here \<open>None\<close>.\<close>

definition parseStanza ::
  "(element \<Rightarrow> string) \<Rightarrow> int \<Rightarrow> element \<Rightarrow> 'v brain \<Rightarrow> error + parsed option \<times> 'v brain"
where
  "parseStanza serialize now stanza b =
     (if name stanza = ''message'' then
        (case parseMessage serialize now stanza b of
           Inl e \<Rightarrow> Inl e
         | Inr (p, b') \<Rightarrow> Inr (Some p, b'))
      else if name stanza = ''presence'' then
        (case parsePresence stanza of
           Inl e \<Rightarrow> Inl e
         | Inr p \<Rightarrow> Inr (Some p, b))
      else Inr (None, b))"

text \<open>
  \<open>updateLatestCommandLog(stanza)\<close> reads only \<open>stanza.fromUsername\<close>, which is the
  argument \<open>fromUser\<close>. The log it stamps is the object found in the map, or a fresh
  \<open>{}\<close> that is not put into the map; then the map is stored.

  For an inherited name with no entry of its own the code finds the inherited member and
  stamps that, outside the map; the stored map is the same as here, but the model has no
  place for that stamp. After \<open>parseMessage\<close> has run for a name there is a record to
  read back under it, and the stamp goes there in the code as in the model.
\<close>

definition updateLatestCommandLog :: "int \<Rightarrow> string \<Rightarrow> 'v brain \<Rightarrow> 'v brain" where
  "updateLatestCommandLog now fromUser b =
     (let msgs = (case userMessages b of None \<Rightarrow> Map.empty | Some m \<Rightarrow> m);
          msgs' = (case msgs fromUser of
                     None \<Rightarrow> msgs
                   | Some userMessageLog \<Rightarrow>
                       msgs(fromUser \<mapsto> userMessageLog\<lparr>lastCommandTime := Some now\<rparr>))
      in b\<lparr>userMessages := Some msgs'\<rparr>)"

section \<open>Observations and example inputs\<close>

text \<open>
  A send is suppressed when \<open>sendMessage\<close> hands nothing to the transport: \<open>sent\<close> is
  as it was.
\<close>

definition suppressed :: "int \<Rightarrow> string \<Rightarrow> 'v client \<Rightarrow> bool" where
  "suppressed now msg c = (sent (snd (sendMessage now msg c)) = sent c)"

text \<open>
  The value \<open>parseMessage\<close> computes as \<open>lastCommandTime\<close> for a user:
  \<open>(userMessageLog && userMessageLog.lastCommandTime) || 0\<close>.
\<close>

definition lastCommandOf :: "'v brain \<Rightarrow> string \<Rightarrow> int" where
  "lastCommandOf b user =
     (case userMessages b of
        None \<Rightarrow> 0
      | Some m \<Rightarrow>
         (case m user of
            None \<Rightarrow> 0
          | Some l \<Rightarrow> (case lastCommandTime l of None \<Rightarrow> 0 | Some t \<Rightarrow> t)))"

text \<open>The user's entry in the stored \<open>userMessages\<close> map, if there is one.\<close>

definition userLog :: "'v brain \<Rightarrow> string \<Rightarrow> user_message_log option" where
  "userLog b user = (case userMessages b of None \<Rightarrow> None | Some m \<Rightarrow> m user)"

text \<open>The entry of the stored \<open>messages\<close> map under a digest, if there is one.\<close>

definition sentRecord :: "'v client \<Rightarrow> string \<Rightarrow> message_obj option" where
  "sentRecord c hash = (case messages (brain c) of None \<Rightarrow> None | Some m \<Rightarrow> m hash)"

text \<open>
  String operations in the spec's words, for comparison with the code: the substring
  after the last occurrence of a character, the substring after its first occurrence, and
  a string with every occurrence of a character removed.
\<close>

definition afterLast :: "char \<Rightarrow> string \<Rightarrow> string" where
  "afterLast c s = rev (takeWhile (\<lambda>x. x \<noteq> c) (rev s))"

definition afterFirst :: "char \<Rightarrow> string \<Rightarrow> string" where
  "afterFirst c s = drop 1 (dropWhile (\<lambda>x. x \<noteq> c) s)"

definition removeEvery :: "char \<Rightarrow> string \<Rightarrow> string" where
  "removeEvery c s = filter (\<lambda>x. x \<noteq> c) s"

text \<open>
  The names of the members of \<open>Object.prototype\<close>, which every plain object inherits; a
  plain name is any other.
\<close>

definition inheritedNames :: "string list" where
  "inheritedNames =
     [''__proto__'', ''constructor'', ''hasOwnProperty'', ''isPrototypeOf'',
      ''propertyIsEnumerable'', ''toLocaleString'', ''toString'', ''valueOf'',
      ''__defineGetter__'', ''__defineSetter__'', ''__lookupGetter__'', ''__lookupSetter__'']"

definition plainName :: "string \<Rightarrow> bool" where
  "plainName u = (u \<notin> set inheritedNames)"

text \<open>A brain in which nothing has been stored, and a client on it that is not debugging.\<close>

definition empty_brain :: "unit brain" where
  "empty_brain = \<lparr>messages = None, userMessages = None, settings = Map.empty\<rparr>"

definition chatbot :: "unit client" where
  "chatbot = \<lparr>credentials =
            \<lparr>jid = ''bot@example.com'', password = ''secret'',
             roomJid = ''room@conf.example.com'', username = ''bot''\<rparr>,
          debug = False, brain = empty_brain, sent = [], logged = []\<rparr>"

text \<open>A message stanza from \<open>alice\<close> with the given text fragments in its body.\<close>

definition from_alice :: "string list \<Rightarrow> element" where
  "from_alice fragments =
     Element ''message'' [''from'' \<mapsto> ''room@conf.example.com/alice'']
       [Child (Element ''body'' Map.empty (map Text fragments))]"

text \<open>The brain in which only \<open>alice\<close> has a log, as \<open>parseMessage\<close> writes it at time \<open>t\<close>.\<close>

definition alice_seen :: "int \<Rightarrow> unit brain" where
  "alice_seen t =
     empty_brain\<lparr>userMessages :=
       Some [''alice'' \<mapsto> \<lparr>user_message_log.time = t, lastCommandTime = None\<rparr>]\<rparr>"

text \<open>Two different texts with the same MD5 digest (M. Stevens, 2024).\<close>

definition text_A :: string where
  "text_A = ''TEXTCOLLBYfGiJUETHQ4hAcKSMd5zYpgqf1YRDhkmxHkhPWptrkoyz28wnI9V0aHeAuaKnak''"

definition text_E :: string where
  "text_E = ''TEXTCOLLBYfGiJUETHQ4hEcKSMd5zYpgqf1YRDhkmxHkhPWptrkoyz28wnI9V0aHeAuaKnak''"

section \<open>Outgoing messages\<close>

lemma sendMessage_debug:
  "debug c \<Longrightarrow>
     sendMessage now msg c = (Some False, c\<lparr>logged := logged c @ [''DEBUGGING: '' @ msg]\<rparr>)"
  by (simp add: sendMessage_def)

lemma sendMessage_messages:
  "\<not> debug c \<Longrightarrow>
     messages (brain (snd (sendMessage now msg c))) =
       Some ((case messages (brain c) of None \<Rightarrow> Map.empty | Some m \<Rightarrow> m)
               (md5 msg \<mapsto> \<lparr>message_obj.message = msg, time = now\<rparr>))"
  by (simp add: sendMessage_def Let_def)

lemma sentRecord_sendMessage:
  "\<not> debug c \<Longrightarrow>
     sentRecord (snd (sendMessage now msg c)) h =
       (if h = md5 msg then Some \<lparr>message_obj.message = msg, time = now\<rparr> else sentRecord c h)"
  by (simp add: sentRecord_def sendMessage_messages split: option.splits)

lemma sendMessage_frame:
  "debug (snd (sendMessage now msg c)) = debug c"
  "credentials (snd (sendMessage now msg c)) = credentials c"
  "userMessages (brain (snd (sendMessage now msg c))) = userMessages (brain c)"
  "settings (brain (snd (sendMessage now msg c))) = settings (brain c)"
  by (simp_all add: sendMessage_def Let_def)

lemma suppressed_iff:
  "\<not> debug c \<Longrightarrow>
     suppressed now msg c =
       (case sentRecord c (md5 msg) of
          None \<Rightarrow> False
        | Some p \<Rightarrow> now - message_obj.time p \<le> 5000)"
  by (auto simp: suppressed_def sendMessage_def sentRecord_def Let_def split: option.splits)

text \<open>
  C10. In debug mode \<open>sendMessage\<close> returns \<open>false\<close>, sends nothing and leaves the brain
  (the \<open>messages\<close> map and every other key) as it was: it only logs the line.
\<close>

theorem C10_debug_send_is_inert:
  assumes "debug c"
  shows "fst (sendMessage now msg c) = Some False
       \<and> sent (snd (sendMessage now msg c)) = sent c
       \<and> brain (snd (sendMessage now msg c)) = brain c
       \<and> snd (sendMessage now msg c) = c\<lparr>logged := logged c @ [''DEBUGGING: '' @ msg]\<rparr>"
  using assms by (simp add: sendMessage_debug)

theorem C10_debug_send_is_inert_witness:
  "debug (chatbot\<lparr>debug := True\<rparr>)
   \<and> fst (sendMessage 1000 ''hi'' (chatbot\<lparr>debug := True\<rparr>)) = Some False
   \<and> sent (snd (sendMessage 1000 ''hi'' (chatbot\<lparr>debug := True\<rparr>))) = []
   \<and> brain (snd (sendMessage 1000 ''hi'' (chatbot\<lparr>debug := True\<rparr>))) = empty_brain"
proof -
  have d: "debug (chatbot\<lparr>debug := True\<rparr>)" by simp
  show ?thesis
    using d C10_debug_send_is_inert [OF d, of 1000 "''hi''"] by (simp add: chatbot_def)
qed

text \<open>
  C8. Outside debug mode, after \<open>sendMessage(S)\<close> at time \<open>now\<close> the stored \<open>messages\<close>
  map is the one read, with the entry under the digest of \<open>S\<close> overwritten by
  \<open>{ message: S, time: now }\<close>. The map has that one entry under the digest, and this
  holds for every state before the call, so whether or not the send was suppressed.
\<close>

theorem C8_send_overwrites_record:
  assumes "\<not> debug c"
  shows "messages (brain (snd (sendMessage now S c))) =
           Some ((case messages (brain c) of None \<Rightarrow> Map.empty | Some m \<Rightarrow> m)
                   (md5 S \<mapsto> \<lparr>message_obj.message = S, time = now\<rparr>))
       \<and> sentRecord (snd (sendMessage now S c)) (md5 S) =
           Some \<lparr>message_obj.message = S, time = now\<rparr>"
  using assms by (simp add: sendMessage_messages sentRecord_sendMessage)

theorem C8_send_overwrites_record_witness:
  "\<not> debug chatbot
   \<and> \<not> suppressed 0 ''hi'' chatbot
   \<and> sentRecord (snd (sendMessage 0 ''hi'' chatbot)) (md5 ''hi'')
       = Some \<lparr>message_obj.message = ''hi'', time = 0\<rparr>
   \<and> suppressed 4000 ''hi'' (snd (sendMessage 0 ''hi'' chatbot))
   \<and> sentRecord (snd (sendMessage 4000 ''hi'' (snd (sendMessage 0 ''hi'' chatbot)))) (md5 ''hi'')
       = Some \<lparr>message_obj.message = ''hi'', time = 4000\<rparr>"
proof -
  have d0: "\<not> debug chatbot" by (simp add: chatbot_def)
  have d1: "\<not> debug (snd (sendMessage 0 ''hi'' chatbot))"
    using d0 by (simp add: sendMessage_frame)
  have r0: "sentRecord chatbot (md5 ''hi'') = None"
    by (simp add: sentRecord_def chatbot_def empty_brain_def)
  have s0: "\<not> suppressed 0 ''hi'' chatbot"
    using d0 r0 by (simp add: suppressed_iff)
  have s1: "suppressed 4000 ''hi'' (snd (sendMessage 0 ''hi'' chatbot))"
    using d0 d1 by (simp add: suppressed_iff sentRecord_sendMessage)
  show ?thesis
    using d0 s0 s1
      C8_send_overwrites_record [OF d0, of 0 "''hi''"]
      C8_send_overwrites_record [OF d1, of 4000 "''hi''"]
    by simp
qed

text \<open>The digest on test inputs: RFC 1321's \<open>abc\<close>, two short texts, and the colliding pair.\<close>

lemma md5_abc: "md5 ''abc'' = ''900150983cd24fb0d6963f7d28e17f72''"
  by code_simp

lemma md5_hi: "md5 ''hi'' = ''49f68a5c8493ec2c0bf489821c21fc3b''"
  by code_simp

lemma md5_ho: "md5 ''ho'' = ''b5d9b59113086d3f9f9f108adaaa9ab5''"
  by code_simp

lemma md5_text_A: "md5 text_A = ''faad49866e9498fc1719f5289e7a0269''"
  unfolding text_A_def by code_simp

lemma md5_text_E: "md5 text_E = ''faad49866e9498fc1719f5289e7a0269''"
  unfolding text_E_def by code_simp

lemma text_E_neq_text_A: "text_E \<noteq> text_A"
  by (simp add: text_A_def text_E_def)

text \<open>
  C6, as amended. Outside debug mode, after \<open>sendMessage(S)\<close> at \<open>T1\<close> a second
  \<open>sendMessage(S)\<close> at \<open>T2\<close> is suppressed iff \<open>T2 - T1 \<le> 5000\<close>; and for a text \<open>S'\<close>
  whose MD5 digest differs from that of \<open>S\<close>, whether \<open>sendMessage(S')\<close> at \<open>T2\<close> is
  suppressed is what it was before \<open>S\<close> was sent: the record of \<open>S\<close> plays no part.
\<close>

theorem C6_dedup_window:
  assumes "\<not> debug c"
  shows "suppressed T2 S (snd (sendMessage T1 S c)) = (T2 - T1 \<le> 5000)
       \<and> (md5 S' \<noteq> md5 S \<longrightarrow>
            suppressed T2 S' (snd (sendMessage T1 S c)) = suppressed T2 S' c)"
proof -
  have d1: "\<not> debug (snd (sendMessage T1 S c))"
    using assms by (simp add: sendMessage_frame)
  have same: "suppressed T2 S (snd (sendMessage T1 S c)) = (T2 - T1 \<le> 5000)"
    using assms d1 by (simp add: suppressed_iff sentRecord_sendMessage)
  have other: "suppressed T2 S' (snd (sendMessage T1 S c)) = suppressed T2 S' c"
    if "md5 S' \<noteq> md5 S"
    using assms d1 that by (simp add: suppressed_iff sentRecord_sendMessage)
  from same other show ?thesis by blast
qed

theorem C6_dedup_window_witness:
  "\<not> debug chatbot
   \<and> md5 ''ho'' \<noteq> md5 ''hi''
   \<and> suppressed 4000 ''hi'' (snd (sendMessage 0 ''hi'' chatbot))
   \<and> \<not> suppressed 6000 ''hi'' (snd (sendMessage 0 ''hi'' chatbot))
   \<and> \<not> suppressed 4000 ''ho'' chatbot
   \<and> \<not> suppressed 4000 ''ho'' (snd (sendMessage 0 ''hi'' chatbot))"
proof -
  have d0: "\<not> debug chatbot" by (simp add: chatbot_def)
  have ne: "md5 ''ho'' \<noteq> md5 ''hi''" by (simp add: md5_hi md5_ho)
  have s0: "\<not> suppressed 4000 ''ho'' chatbot"
    using d0 by (simp add: suppressed_iff sentRecord_def chatbot_def empty_brain_def)
  show ?thesis
    using d0 ne s0
      C6_dedup_window [OF d0, of 4000 "''hi''" 0 "''ho''"]
      C6_dedup_window [OF d0, of 6000 "''hi''" 0 "''ho''"]
    by simp
qed

text \<open>
  The claim as stated fails for two different texts with one digest: after \<open>text_A\<close> is
  sent at 0, \<open>text_E\<close> at 1000 finds the record of \<open>text_A\<close> under its own digest and is
  suppressed, though nothing like it was sent before.
\<close>

theorem C6_collision_counterexample:
  "text_E \<noteq> text_A
   \<and> \<not> debug chatbot
   \<and> \<not> suppressed 1000 text_E chatbot
   \<and> sentRecord (snd (sendMessage 0 text_A chatbot)) (md5 text_E)
       = Some \<lparr>message_obj.message = text_A, time = 0\<rparr>
   \<and> suppressed 1000 text_E (snd (sendMessage 0 text_A chatbot))"
proof -
  have d0: "\<not> debug chatbot" by (simp add: chatbot_def)
  have d1: "\<not> debug (snd (sendMessage 0 text_A chatbot))"
    using d0 by (simp add: sendMessage_frame)
  have eq: "md5 text_E = md5 text_A" by (simp add: md5_text_A md5_text_E)
  have s0: "\<not> suppressed 1000 text_E chatbot"
    using d0 by (simp add: suppressed_iff sentRecord_def chatbot_def empty_brain_def)
  have r: "sentRecord (snd (sendMessage 0 text_A chatbot)) (md5 text_E)
             = Some \<lparr>message_obj.message = text_A, time = 0\<rparr>"
    using d0 eq by (simp add: sentRecord_sendMessage)
  have s1: "suppressed 1000 text_E (snd (sendMessage 0 text_A chatbot))"
    using d1 r by (simp add: suppressed_iff)
  from text_E_neq_text_A d0 s0 r s1 show ?thesis by blast
qed

text \<open>
  C7, as amended. From a brain with no \<open>messages\<close>, outside debug mode, the text \<open>hi\<close>
  is sent at 0, 4000 and 9000: the first send goes to the transport, the second is
  suppressed and overwrites the record with 4000, so the third, 5000 ms after it and not
  more, is suppressed too; afterwards the record of \<open>hi\<close> has the time 9000.
\<close>

theorem C7_three_sends:
  "\<not> suppressed 0 ''hi'' chatbot
   \<and> suppressed 4000 ''hi'' (snd (sendMessage 0 ''hi'' chatbot))
   \<and> sentRecord (snd (sendMessage 4000 ''hi'' (snd (sendMessage 0 ''hi'' chatbot)))) (md5 ''hi'')
       = Some \<lparr>message_obj.message = ''hi'', time = 4000\<rparr>
   \<and> suppressed 9000 ''hi'' (snd (sendMessage 4000 ''hi'' (snd (sendMessage 0 ''hi'' chatbot))))
   \<and> sentRecord
        (snd (sendMessage 9000 ''hi''
          (snd (sendMessage 4000 ''hi'' (snd (sendMessage 0 ''hi'' chatbot))))))
        (md5 ''hi'')
       = Some \<lparr>message_obj.message = ''hi'', time = 9000\<rparr>"
proof -
  have d0: "\<not> debug chatbot" by (simp add: chatbot_def)
  have d1: "\<not> debug (snd (sendMessage 0 ''hi'' chatbot))"
    using d0 by (simp add: sendMessage_frame)
  have d2: "\<not> debug (snd (sendMessage 4000 ''hi'' (snd (sendMessage 0 ''hi'' chatbot))))"
    using d1 by (simp add: sendMessage_frame)
  have s0: "\<not> suppressed 0 ''hi'' chatbot"
    using d0 by (simp add: suppressed_iff sentRecord_def chatbot_def empty_brain_def)
  show ?thesis
    using s0 d0 d1 d2 by (simp add: suppressed_iff sentRecord_sendMessage)
qed

text \<open>The scenario as the claim has it, with the third send going through, does not hold.\<close>

theorem C7_third_send_counterexample:
  "\<not> (suppressed 4000 ''hi'' (snd (sendMessage 0 ''hi'' chatbot))
      \<and> \<not> suppressed 9000 ''hi''
            (snd (sendMessage 4000 ''hi'' (snd (sendMessage 0 ''hi'' chatbot))))
      \<and> sentRecord
           (snd (sendMessage 9000 ''hi''
             (snd (sendMessage 4000 ''hi'' (snd (sendMessage 0 ''hi'' chatbot))))))
           (md5 ''hi'')
          = Some \<lparr>message_obj.message = ''hi'', time = 9000\<rparr>)"
proof -
  have d0: "\<not> debug chatbot" by (simp add: chatbot_def)
  have d1: "\<not> debug (snd (sendMessage 0 ''hi'' chatbot))"
    using d0 by (simp add: sendMessage_frame)
  have d2: "\<not> debug (snd (sendMessage 4000 ''hi'' (snd (sendMessage 0 ''hi'' chatbot))))"
    using d1 by (simp add: sendMessage_frame)
  have "suppressed 9000 ''hi''
          (snd (sendMessage 4000 ''hi'' (snd (sendMessage 0 ''hi'' chatbot))))"
    using d1 d2 by (simp add: suppressed_iff sentRecord_sendMessage)
  then show ?thesis by blast
qed

section \<open>Settings\<close>

text \<open>
  C9. If nothing is stored under the key \<open>leaderboard\<close>, \<open>getSetting\<close> yields \<open>null\<close>
  and \<open>getUser\<close> throws for every username instead of returning an empty record.
\<close>

theorem C9_getUser_faults_without_leaderboard:
  assumes "settings b ''leaderboard'' = None"
  shows "getSetting b ''leaderboard'' = Null \<and> getUser b user = Inl TypeError"
  using assms by (simp add: getUser_def getSetting_def)

theorem C9_getUser_faults_without_leaderboard_witness:
  "settings empty_brain ''leaderboard'' = None
   \<and> getSetting empty_brain ''leaderboard'' = Null
   \<and> getUser empty_brain ''alice'' = Inl TypeError"
proof -
  have h: "settings empty_brain ''leaderboard'' = None"
    by (simp add: empty_brain_def)
  show ?thesis
    using h C9_getUser_faults_without_leaderboard [OF h, of "''alice''"] by simp
qed

section \<open>Incoming stanzas\<close>

subsection \<open>The sender's username\<close>

lemma indexOf_ge: "- 1 \<le> indexOf s c"
  by (induction s) (auto simp: Let_def)

lemma indexOf_first: "c \<notin> set pre \<Longrightarrow> indexOf (pre @ c # rest) c = int (length pre)"
  by (induction pre) (auto simp: Let_def)

lemma indexOf_absent: "c \<notin> set s \<Longrightarrow> indexOf s c = - 1"
  by (induction s) (auto simp: Let_def)

lemma substr_after_first:
  assumes "c \<notin> set pre"
  shows "substr (pre @ c # rest) (indexOf (pre @ c # rest) c + 1) = rest"
proof -
  have "nat (int (length pre) + 1) = Suc (length pre)" by simp
  with assms show ?thesis
    by (simp add: indexOf_first substr_def)
qed

lemma split_at_first:
  "c \<in> set s \<Longrightarrow> s = takeWhile (\<lambda>x. x \<noteq> c) s @ c # afterFirst c s"
  unfolding afterFirst_def
  by (induction s) auto

lemma parseFromUsername_first:
  assumes "attrs stanza ''from'' = Some j" and "CHR ''/'' \<in> set j"
  shows "parseFromUsername stanza = Inr (afterFirst (CHR ''/'') j)"
proof -
  let ?pre = "takeWhile (\<lambda>x. x \<noteq> CHR ''/'') j"
  have j: "j = ?pre @ CHR ''/'' # afterFirst (CHR ''/'') j"
    using assms(2) by (rule split_at_first)
  have "CHR ''/'' \<notin> set ?pre"
    by (auto dest: set_takeWhileD)
  then have "substr (?pre @ CHR ''/'' # afterFirst (CHR ''/'') j)
               (indexOf (?pre @ CHR ''/'' # afterFirst (CHR ''/'') j) (CHR ''/'') + 1)
             = afterFirst (CHR ''/'') j"
    by (rule substr_after_first)
  with j have "substr j (indexOf j (CHR ''/'') + 1) = afterFirst (CHR ''/'') j"
    by simp
  with assms(1) show ?thesis by (simp add: parseFromUsername_def)
qed

subsection \<open>What \<open>parseMessage\<close> returns and stores\<close>

lemma replace_remove1: "replace s c = remove1 c s"
  by (induction s) auto

lemma join_Text: "join ser (map Text fs) = concat fs"
  by (simp add: join_def comp_def)

lemma parseMessage_ok:
  assumes "parseFromUsername st = Inr u" and "findChild ''body'' (children st) = Some body"
  shows "parseMessage ser now st b =
           Inr (Message ''message'' u (replace (join ser (children body)) backslash)
                  (0 < lastCommandOf b u \<and> now - lastCommandOf b u < 5000),
                b\<lparr>userMessages :=
                    Some ((case userMessages b of None \<Rightarrow> Map.empty | Some m \<Rightarrow> m)
                            (u \<mapsto> \<lparr>user_message_log.time = now, lastCommandTime = None\<rparr>))\<rparr>)"
  using assms
  by (simp add: parseMessage_def lastCommandOf_def Let_def split: option.splits)

lemma parseMessage_InrD:
  assumes "parseMessage ser now st b = Inr (p, b')"
  obtains u body where "parseFromUsername st = Inr u"
    and "findChild ''body'' (children st) = Some body"
  using assms
  by (auto simp: parseMessage_def split: sum.splits option.splits)

lemma from_alice_user: "parseFromUsername (from_alice fs) = Inr ''alice''"
  by (simp add: parseFromUsername_def from_alice_def substr_def Let_def)

lemma from_alice_body:
  "findChild ''body'' (children (from_alice fs)) = Some (Element ''body'' Map.empty (map Text fs))"
  by (simp add: from_alice_def)

lemma parseMessage_from_alice:
  "parseMessage ser now (from_alice fs) b =
     Inr (Message ''message'' ''alice'' (replace (concat fs) backslash)
            (0 < lastCommandOf b ''alice'' \<and> now - lastCommandOf b ''alice'' < 5000),
          b\<lparr>userMessages :=
              Some ((case userMessages b of None \<Rightarrow> Map.empty | Some m \<Rightarrow> m)
                      (''alice'' \<mapsto> \<lparr>user_message_log.time = now, lastCommandTime = None\<rparr>))\<rparr>)"
  using parseMessage_ok [OF from_alice_user from_alice_body, where ser = ser and now = now and b = b]
  by (simp add: join_Text)


lemma lastCommandOf_fresh:
  "lastCommandOf
     (b\<lparr>userMessages :=
          Some (m(u \<mapsto> \<lparr>user_message_log.time = now, lastCommandTime = None\<rparr>))\<rparr>) u = 0"
  by (simp add: lastCommandOf_def)

lemma userLog_updateLatestCommandLog:
  "userLog (updateLatestCommandLog now u b) v =
     (if v = u then map_option (\<lambda>l. l\<lparr>lastCommandTime := Some now\<rparr>) (userLog b u)
      else userLog b v)"
  by (simp add: userLog_def updateLatestCommandLog_def Let_def split: option.splits)

lemma lastCommandOf_userLog:
  "lastCommandOf b u =
     (case userLog b u of
        None \<Rightarrow> 0
      | Some l \<Rightarrow> (case lastCommandTime l of None \<Rightarrow> 0 | Some t \<Rightarrow> t))"
  by (simp add: lastCommandOf_def userLog_def split: option.splits)

lemma userLog_fresh:
  "userLog (b\<lparr>userMessages := Some (m(u \<mapsto> l))\<rparr>) u = Some l"
  by (simp add: userLog_def)

lemma parseMessage_effect:
  assumes "parseMessage ser now stanza b = Inr (p, b')"
  shows "parseFromUsername stanza = Inr (fromUsername p)"
    and "userMessages b' =
           Some ((case userMessages b of None \<Rightarrow> Map.empty | Some m \<Rightarrow> m)
                   (fromUsername p \<mapsto> \<lparr>user_message_log.time = now, lastCommandTime = None\<rparr>))"
    and "userLog b' (fromUsername p) = Some \<lparr>user_message_log.time = now, lastCommandTime = None\<rparr>"
    and "lastCommandOf b' (fromUsername p) = 0"
    and "messages b' = messages b" and "settings b' = settings b"
proof -
  from assms obtain u body where u: "parseFromUsername stanza = Inr u"
    and body: "findChild ''body'' (children stanza) = Some body"
    by (rule parseMessage_InrD)
  from parseMessage_ok [OF u body, where ser = ser and now = now and b = b] assms
  have p: "fromUsername p = u"
    and b': "b' = b\<lparr>userMessages :=
                    Some ((case userMessages b of None \<Rightarrow> Map.empty | Some m \<Rightarrow> m)
                            (u \<mapsto> \<lparr>user_message_log.time = now, lastCommandTime = None\<rparr>))\<rparr>"
    by auto
  show "parseFromUsername stanza = Inr (fromUsername p)"
    and "userMessages b' =
           Some ((case userMessages b of None \<Rightarrow> Map.empty | Some m \<Rightarrow> m)
                   (fromUsername p \<mapsto> \<lparr>user_message_log.time = now, lastCommandTime = None\<rparr>))"
    and "userLog b' (fromUsername p) = Some \<lparr>user_message_log.time = now, lastCommandTime = None\<rparr>"
    and "lastCommandOf b' (fromUsername p) = 0"
    and "messages b' = messages b" and "settings b' = settings b"
    unfolding p b' using u by (simp_all add: lastCommandOf_fresh userLog_fresh)
qed

lemma userLog_other:
  "v \<noteq> u \<Longrightarrow>
     userLog (b\<lparr>userMessages :=
                  Some ((case userMessages b of None \<Rightarrow> Map.empty | Some m \<Rightarrow> m)(u \<mapsto> l))\<rparr>) v
       = userLog b v"
  by (simp add: userLog_def split: option.splits)

lemma parseMessage_others:
  assumes "parseMessage ser now stanza b = Inr (p, b')" and "v \<noteq> fromUsername p"
  shows "userLog b' v = userLog b v"
proof -
  from assms(1) obtain u body where u: "parseFromUsername stanza = Inr u"
    and body: "findChild ''body'' (children stanza) = Some body"
    by (rule parseMessage_InrD)
  from parseMessage_ok [OF u body, where ser = ser and now = now and b = b] assms(1)
  have p: "fromUsername p = u"
    and b': "b' = b\<lparr>userMessages :=
                    Some ((case userMessages b of None \<Rightarrow> Map.empty | Some m \<Rightarrow> m)
                            (u \<mapsto> \<lparr>user_message_log.time = now, lastCommandTime = None\<rparr>))\<rparr>"
    by auto
  from assms(2) p have "v \<noteq> u" by simp
  then show ?thesis unfolding b' by (rule userLog_other)
qed

text \<open>
  C1, as amended. Whenever \<open>parseMessage\<close> returns for a stanza from \<open>U\<close> at time
  \<open>now\<close>, for every \<open>U\<close> other than \<open>__proto__\<close> and whatever \<open>rateLimited\<close> it
  reports, the stored \<open>userMessages\<close> map has a record for \<open>U\<close> whose \<open>time\<close> is
  \<open>now\<close>. The parse does not stamp \<open>lastCommandTime\<close>, the field the rate-limit check
  consults: in that record it is absent, or at most what the record of \<open>U\<close> held before
  the parse. The entries of the other users and the other keys of the brain are as they
  were.
\<close>

theorem C1_parse_stamps_message_time:
  assumes "parseMessage ser now stanza b = Inr (p, b')"
    and "fromUsername p \<noteq> ''__proto__''"
  shows "parseFromUsername stanza = Inr (fromUsername p)
       \<and> (\<exists>l'. userLog b' (fromUsername p) = Some l'
               \<and> user_message_log.time l' = now
               \<and> (lastCommandTime l' = None
                    \<or> Some (lastCommandTime l')
                        = map_option lastCommandTime (userLog b (fromUsername p))))
       \<and> (\<forall>v. v \<noteq> fromUsername p \<longrightarrow> userLog b' v = userLog b v)
       \<and> userMessages b' \<noteq> None
       \<and> messages b' = messages b \<and> settings b' = settings b"
  using parseMessage_effect [OF assms(1)] parseMessage_others [OF assms(1)] by simp

theorem C1_parse_stamps_message_time_witness:
  "parseMessage (\<lambda>e. []) 1000 (from_alice [''hello''])
       (updateLatestCommandLog 500 ''alice'' (alice_seen 0))
     = Inr (Message ''message'' ''alice'' ''hello'' True, alice_seen 1000)
   \<and> ''alice'' \<noteq> ''__proto__''
   \<and> parseFromUsername (from_alice [''hello'']) = Inr ''alice''
   \<and> userLog (updateLatestCommandLog 500 ''alice'' (alice_seen 0)) ''alice''
       = Some \<lparr>user_message_log.time = 0, lastCommandTime = Some 500\<rparr>
   \<and> (\<exists>l'. userLog (alice_seen 1000) ''alice'' = Some l'
          \<and> user_message_log.time l' = 1000 \<and> lastCommandTime l' \<noteq> Some 1000)
   \<and> userLog (alice_seen 1000) ''bob''
       = userLog (updateLatestCommandLog 500 ''alice'' (alice_seen 0)) ''bob''
   \<and> userMessages (alice_seen 1000) \<noteq> None"
proof -
  have l: "userLog (updateLatestCommandLog 500 ''alice'' (alice_seen 0)) ''alice''
             = Some \<lparr>user_message_log.time = 0, lastCommandTime = Some 500\<rparr>"
    by (simp add: userLog_updateLatestCommandLog) (simp add: userLog_def alice_seen_def)
  have h: "parseMessage (\<lambda>e. []) 1000 (from_alice [''hello''])
             (updateLatestCommandLog 500 ''alice'' (alice_seen 0))
           = Inr (Message ''message'' ''alice'' ''hello'' True, alice_seen 1000)"
    by (simp add: parseMessage_from_alice lastCommandOf_userLog l backslash_def)
       (simp add: updateLatestCommandLog_def alice_seen_def empty_brain_def Let_def)
  have n: "fromUsername (Message ''message'' ''alice'' ''hello'' True) \<noteq> ''__proto__''"
    by simp
  from C1_parse_stamps_message_time [OF h n] h l show ?thesis by auto
qed

text \<open>
  The claim as stated fails: after a parse at 1000 the record of \<open>alice\<close> has no
  \<open>lastCommandTime\<close>, and the value the next check reads is 0, not 1000.
\<close>

theorem C1_last_command_counterexample:
  "parseMessage (\<lambda>e. []) 1000 (from_alice [''hello'']) empty_brain
     = Inr (Message ''message'' ''alice'' ''hello'' False, alice_seen 1000)
   \<and> map_option lastCommandTime (userLog (alice_seen 1000) ''alice'') = Some None
   \<and> lastCommandOf (alice_seen 1000) ''alice'' \<noteq> 1000"
  by (simp add: parseMessage_from_alice backslash_def)
     (simp add: lastCommandOf_def userLog_def alice_seen_def empty_brain_def)





subsection \<open>Stamping the last command\<close>

text \<open>
  C3. The code at the input where the claim fails: \<open>alice\<close> has no record, and after
  \<open>updateLatestCommandLog\<close> at 1000 the stored map is empty. The stamp went to a fresh
  object that is not in the map.
\<close>

theorem C3_stamp_lost_without_record:
  "userLog empty_brain ''alice'' = None
   \<and> userMessages (updateLatestCommandLog 1000 ''alice'' empty_brain) = Some Map.empty
   \<and> userLog (updateLatestCommandLog 1000 ''alice'' empty_brain) ''alice'' = None"
  by (simp add: userLog_def updateLatestCommandLog_def empty_brain_def)

text \<open>
  With a record in the map the stamp is stored; without one, for a plain name, nothing
  is.
\<close>

lemma updateLatestCommandLog_known:
  "userLog b u = Some l \<Longrightarrow>
     userLog (updateLatestCommandLog now u b) u = Some (l\<lparr>lastCommandTime := Some now\<rparr>)"
  by (simp add: userLog_updateLatestCommandLog)

lemma updateLatestCommandLog_unknown:
  "plainName u \<Longrightarrow> userLog b u = None \<Longrightarrow>
     userLog (updateLatestCommandLog now u b) u = None"
  by (simp add: userLog_updateLatestCommandLog)

lemma plainName_alice: "plainName ''alice''"
  by (simp add: plainName_def inheritedNames_def)

subsection \<open>The body\<close>

text \<open>
  The parsed body is the concatenation of the fragments with its first backslash removed.
  That is every backslash exactly when there is at most one.
\<close>

lemma parsed_body_text:
  "\<exists>limited b'. parseMessage ser now (from_alice fs) b =
      Inr (Message ''message'' ''alice'' (remove1 backslash (concat fs)) limited, b')"
  by (simp add: parseMessage_from_alice replace_remove1)

lemma remove1_eq_removeEvery:
  "(remove1 c s = removeEvery c s) = (count_list s c \<le> 1)"
proof (induction s)
  case Nil
  then show ?case by (simp add: removeEvery_def)
next
  case (Cons x xs)
  have "length (filter (\<lambda>y. y \<noteq> c) xs) + count_list xs c = length xs"
    by (induction xs) auto
  moreover have "count_list xs c = 0 \<Longrightarrow> filter (\<lambda>y. y \<noteq> c) xs = xs"
    by (induction xs) (auto split: if_splits)
  ultimately show ?case
    using Cons by (auto simp: removeEvery_def dest: arg_cong [where f = length])
qed

text \<open>
  C4. The code at an input where the claim fails. The two fragments hold a backslash
  each: the first is \<open>a\<close>, a backslash, \<open>b\<close>, the second a backslash, \<open>c\<close>. The parsed
  body is \<open>ab\<close>, a backslash, \<open>c\<close>: the second backslash stays, while removing every
  backslash gives \<open>abc\<close>.
\<close>

theorem C4_second_backslash_stays:
  "parseMessage ser 1000
       (from_alice [''a'' @ [backslash] @ ''b'', [backslash] @ ''c'']) empty_brain
     = Inr (Message ''message'' ''alice'' (''ab'' @ [backslash] @ ''c'') False, alice_seen 1000)
   \<and> removeEvery backslash (concat [''a'' @ [backslash] @ ''b'', [backslash] @ ''c'']) = ''abc''
   \<and> ''ab'' @ [backslash] @ ''c'' \<noteq> ''abc''"
  by (simp add: parseMessage_from_alice removeEvery_def)
     (simp add: backslash_def lastCommandOf_def alice_seen_def empty_brain_def)

subsection \<open>The username is what follows the first slash\<close>

text \<open>
  C5, as amended. For every stanza whose \<open>from\<close> attribute contains a \<open>/\<close>, the
  extracted username is the substring of the address after its first \<open>/\<close>: the address
  is a part without \<open>/\<close>, the \<open>/\<close>, and the username.
\<close>

theorem C5_username_after_first_slash:
  assumes "attrs stanza ''from'' = Some fromJid" and "CHR ''/'' \<in> set fromJid"
  shows "parseFromUsername stanza = Inr (afterFirst (CHR ''/'') fromJid)
       \<and> fromJid = takeWhile (\<lambda>x. x \<noteq> CHR ''/'') fromJid @ CHR ''/'' # afterFirst (CHR ''/'') fromJid
       \<and> CHR ''/'' \<notin> set (takeWhile (\<lambda>x. x \<noteq> CHR ''/'') fromJid)"
  using parseFromUsername_first [OF assms] split_at_first [OF assms(2)]
  by (auto dest: set_takeWhileD)

theorem C5_username_after_first_slash_witness:
  "attrs (from_alice []) ''from'' = Some ''room@conf.example.com/alice''
   \<and> CHR ''/'' \<in> set ''room@conf.example.com/alice''
   \<and> parseFromUsername (from_alice []) = Inr ''alice''
   \<and> afterFirst (CHR ''/'') ''room@conf.example.com/alice'' = ''alice''"
proof -
  have h1: "attrs (from_alice []) ''from'' = Some ''room@conf.example.com/alice''"
    by (simp add: from_alice_def)
  have h2: "CHR ''/'' \<in> set ''room@conf.example.com/alice''" by simp
  have a: "afterFirst (CHR ''/'') ''room@conf.example.com/alice'' = ''alice''"
    by (simp add: afterFirst_def)
  from C5_username_after_first_slash [OF h1 h2] h1 h2 a show ?thesis by simp
qed

text \<open>
  The claim as stated fails on an address with two slashes: the code gives \<open>al/ice\<close>,
  the substring after the last slash is \<open>ice\<close>.
\<close>

theorem C5_last_slash_counterexample:
  "CHR ''/'' \<in> set ''room@conf.example.com/al/ice''
   \<and> parseFromUsername (Element ''message'' [''from'' \<mapsto> ''room@conf.example.com/al/ice''] [])
       = Inr ''al/ice''
   \<and> afterLast (CHR ''/'') ''room@conf.example.com/al/ice'' = ''ice''"
  by (simp add: parseFromUsername_def substr_def afterLast_def Let_def)

text \<open>With exactly one slash in the address the two readings agree.\<close>

lemma afterLast_split:
  assumes "c \<notin> set rest"
  shows "afterLast c (pre @ c # rest) = rest"
proof -
  have "takeWhile (\<lambda>x. x \<noteq> c) (rev rest @ c # rev pre)
          = rev rest @ takeWhile (\<lambda>x. x \<noteq> c) (c # rev pre)"
    using assms by (intro takeWhile_append2) auto
  then show ?thesis by (simp add: afterLast_def)
qed

lemma parseFromUsername_one_slash:
  assumes "attrs stanza ''from'' = Some (pre @ CHR ''/'' # rest)"
    and "CHR ''/'' \<notin> set pre" and "CHR ''/'' \<notin> set rest"
  shows "parseFromUsername stanza = Inr (afterLast (CHR ''/'') (pre @ CHR ''/'' # rest))"
  using assms by (simp add: parseFromUsername_def substr_after_first afterLast_split)

end
